theory Spec2Isabelle
  imports Main "HOL-Library.Word"
begin

section \<open>The stopwatch super-loop of \<^verbatim>\<open>main.cpp\<close>\<close>

text \<open>
  The program is one translation unit, \<^verbatim>\<open>src/main.cpp\<close>: two globals
  (\<^verbatim>\<open>gStopwatchMs\<close>, \<^verbatim>\<open>gRunning\<close>), two on-screen buttons, three interval meters, the
  "last displayed" caches of \<^verbatim>\<open>main\<close>, and an endless loop. The embedding keeps the
  state in one record, passes it through the phases of one loop iteration in the order
  of the source, and returns the drawing calls of the iteration as a list.

  The source as given is not accepted by a compiler; the embedding reads it as follows.
  \<^item> \<^verbatim>\<open>unint32_t\<close> (lines 137 and 179) is read as \<^verbatim>\<open>uint32_t\<close>.
  \<^item> The second declaration of \<^verbatim>\<open>currentMS\<close> (line 179) is read as an assignment to
    the local of line 138; both compute the value of \<^verbatim>\<open>gStopwatchMs\<close>.
  \<^item> The six-argument call of \<^verbatim>\<open>drawStopwatchScreen\<close> (line 144) is the function
    defined at line 227. The three-argument call (line 145) matches only the prototype
    of line 55, which has no body in the file: it is recorded as a call and draws
    nothing in the model.
\<close>

subsection \<open>Data\<close>

type_synonym u32 = "32 word"

text \<open>
  \<^verbatim>\<open>struct MyButton\<close>. The coordinate fields are prefixed (\<^verbatim>\<open>x\<close> is \<open>btn_x\<close>) so that
  they do not capture the variable names of later statements. They hold the constants
  of lines 40 and 41 and are never written, so \<open>int\<close> stands for the C \<^verbatim>\<open>int\<close>.
\<close>

record MyButton =
  btn_x :: int
  btn_y :: int
  btn_w :: int
  btn_h :: int
  label :: string
  pressed :: bool

text \<open>
  The globals of the file and the locals of \<^verbatim>\<open>main\<close> that live across iterations. A
  meter (\<^verbatim>\<open>elapsedMillis\<close>) is held as its origin, a snapshot of the timer's counter.
\<close>

record state =
  gStopwatchMs :: u32
  gRunning :: bool
  btnStart :: MyButton
  guiBtnReset :: MyButton
  buttonTick :: u32
  displayTick :: u32
  stopwatchTick :: u32
  lastDisplayedSec :: u32
  lastDisplayedMin :: u32
  lastDisplayedHr :: u32
  lastDisplayedMS :: u32
  lastRunning :: bool

text \<open>
  The places of \<^verbatim>\<open>main\<close> that touch a meter, named by their source line: the three
  constructions (80 to 82), the reads (97, 124, 142, 161, 171, 182) and the
  assignments of zero (100, 127, 130, 155, 165, 175, 186). The hardware counter runs
  while the loop executes, so each place sees its own counter value.
\<close>

datatype point =
  L80 | L81 | L82 | L97 | L100 | L124 | L127 | L130
  | L142 | L155 | L161 | L165 | L171 | L175 | L182 | L186

text \<open>
  What one iteration takes from outside: the counter value at each place, and what the
  four edge consumers of the two \<^verbatim>\<open>Button\<close> objects return (lines 104, 108, 113, 117).
  The class \<^verbatim>\<open>Button\<close> (\<^verbatim>\<open>button.h\<close>) is not part of the file, so its \<^verbatim>\<open>tick\<close> (lines 98
  and 99) has no effect on the modelled state and its edge reports are inputs.
\<close>

record inputs =
  now :: "point \<Rightarrow> u32"
  playPause_wasPressed :: bool
  playPause_wasReleased :: bool
  reset_wasPressed :: bool
  reset_wasReleased :: bool

text \<open>
  What \<^verbatim>\<open>main\<close> fixes before the loop: the clock frequency returned by
  \<^verbatim>\<open>SysCtlClockFreqSet\<close> (line 72), and whether the graphics header defines the macro
  \<^verbatim>\<open>GrFlush\<close> tested at line 149.
\<close>

record config =
  gSystemClock :: u32
  GrFlush_defined :: bool

datatype colour = ClrBlack | ClrCyan | ClrYellow | ClrOlive | ClrGray | ClrWhite

text \<open>
  The calls into the graphics library, in the order they are made.
  \<^verbatim>\<open>drawButton\<close> keeps its colours in \<^verbatim>\<open>uint16_t\<close> locals before passing them on, so its
  colour calls carry only the low 16 bits of the named colour.
\<close>

datatype draw_op =
  GrContextForegroundSet colour
  | GrContextForegroundSet_low16 colour
  | GrRectFill int int int int
  | GrRectDraw int int int int
  | GrStringDrawCentered string int int
  | GrFlush
  | drawStopwatchScreen_prototype u32 bool

subsection \<open>Constants and initial values\<close>

definition BUTTON_TICK_MS :: u32 where
  "BUTTON_TICK_MS = 20"

definition DISPLAY_REFRESH_MS :: u32 where
  "DISPLAY_REFRESH_MS = 50"

definition btnStart_init :: MyButton where
  "btnStart_init =
     \<lparr>btn_x = 0, btn_y = 80, btn_w = 50, btn_h = 28, label = ''PLAY'', pressed = False\<rparr>"

definition guiBtnReset_init :: MyButton where
  "guiBtnReset_init =
     \<lparr>btn_x = 60, btn_y = 80, btn_w = 50, btn_h = 28, label = ''RESET'', pressed = False\<rparr>"

text \<open>
  The state on entry to the loop (lines 26 to 28, 40, 41, 80 to 82, 88 to 93). The
  argument gives the counter values at the three meter constructions.
  \<^verbatim>\<open>static_cast<uint32_t>(-1)\<close> is the word \<open>- 1\<close>, that is \<open>2 ^ 32 - 1\<close>, and
  \<^verbatim>\<open>lastRunning = !gRunning\<close> is evaluated with \<^verbatim>\<open>gRunning = false\<close>.
\<close>

definition init_state :: "(point \<Rightarrow> u32) \<Rightarrow> state" where
  "init_state t =
     \<lparr>gStopwatchMs = 0,
      gRunning = False,
      btnStart = btnStart_init,
      guiBtnReset = guiBtnReset_init,
      buttonTick = t L80,
      displayTick = t L81,
      stopwatchTick = t L82,
      lastDisplayedSec = - 1,
      lastDisplayedMin = - 1,
      lastDisplayedHr = - 1,
      lastDisplayedMS = - 1,
      lastRunning = (\<not> False)\<rparr>"

subsection \<open>The interval meter\<close>

text \<open>
  The class \<^verbatim>\<open>elapsedMillis\<close> (\<^verbatim>\<open>elapsedTime.h\<close>) and the \<^verbatim>\<open>Timer\<close> it reads
  (\<^verbatim>\<open>timerLib.h\<close>) are not part of the file; the three definitions below follow the
  spec's description of them. A clock below 1000 Hz would make the read divide by
  zero; no statement below depends on the value read in that case.
\<close>

text \<open>
  Modelled from the spec: \<^verbatim>\<open>Timer::begin\<close> is missing; the spec has it record
  \<open>clock_hz / 1000\<close> ticks per millisecond.
\<close>

definition ticks_per_ms :: "config \<Rightarrow> u32" where
  "ticks_per_ms cfg = gSystemClock cfg div 1000"

text \<open>
  Modelled from the spec: the read of an \<^verbatim>\<open>elapsedMillis\<close> is missing; the spec has a
  meter hold a snapshot \<open>origin\<close> of the counter and a read return
  \<open>(now - origin) / ticks_per_ms\<close>, with unsigned subtraction.
\<close>

definition meter_read :: "config \<Rightarrow> u32 \<Rightarrow> u32 \<Rightarrow> u32" where
  "meter_read cfg origin t = (t - origin) div ticks_per_ms cfg"

text \<open>
  Modelled from the spec: the assignment of zero to an \<^verbatim>\<open>elapsedMillis\<close> is missing;
  the spec has it take a new snapshot, \<open>origin = now\<close>.
\<close>

definition meter_reset :: "u32 \<Rightarrow> u32" where
  "meter_reset t = t"

subsection \<open>Button callbacks (lines 269 to 288)\<close>

definition onPlayPauseClick :: "state \<Rightarrow> state" where
  "onPlayPauseClick s =
     (let s1 = s\<lparr>gRunning := \<not> gRunning s\<rparr>
      in s1\<lparr>btnStart := (btnStart s1)\<lparr>label := (if gRunning s1 then ''PAUSE'' else ''PLAY'')\<rparr>\<rparr>)"

definition onPlayPauseRelease :: "state \<Rightarrow> state" where
  "onPlayPauseRelease s = s"

definition onResetClick :: "state \<Rightarrow> state" where
  "onResetClick s = s\<lparr>gStopwatchMs := 0\<rparr>"

definition onResetRelease :: "state \<Rightarrow> state" where
  "onResetRelease s = s"

subsection \<open>Formatting and drawing (lines 227 to 264)\<close>

definition digit_char :: "nat \<Rightarrow> char" where
  "digit_char d = ''0123456789'' ! (d mod 10)"

fun dec_string :: "nat \<Rightarrow> string" where
  "dec_string n =
     (if n < 10 then [digit_char n] else dec_string (n div 10) @ [digit_char (n mod 10)])"

declare dec_string.simps [simp del]

text \<open>\<^verbatim>\<open>%02u\<close>: decimal, padded with zeros on the left to at least two characters.\<close>

definition fmt_02u :: "u32 \<Rightarrow> string" where
  "fmt_02u v = (let d = dec_string (unat v) in replicate (2 - length d) CHR ''0'' @ d)"

text \<open>\<^verbatim>\<open>snprintf\<close> into a buffer of \<open>n\<close> bytes keeps at most \<open>n - 1\<close> characters.\<close>

definition snprintf :: "nat \<Rightarrow> string \<Rightarrow> string" where
  "snprintf n txt = take (n - 1) txt"

definition drawStopwatchScreen :: "u32 \<Rightarrow> u32 \<Rightarrow> u32 \<Rightarrow> u32 \<Rightarrow> bool \<Rightarrow> draw_op list" where
  "drawStopwatchScreen currentSec currentMin currentHr currentMS running =
     (let str = snprintf 10 (fmt_02u currentHr @ '':'' @ fmt_02u currentMin @ '':''
                             @ fmt_02u currentSec @ '':'' @ fmt_02u currentMS);
          str = snprintf 10 (fmt_02u currentSec @ '' s'');
          str2 = (if running then ''RUNNING'' else ''STOPPED'')
      in [GrContextForegroundSet ClrBlack,
          GrRectFill 0 0 127 127,
          GrContextForegroundSet ClrCyan,
          GrStringDrawCentered ''STOPWATCH'' 64 15,
          GrContextForegroundSet (if running then ClrYellow else ClrOlive),
          GrStringDrawCentered str 64 50,
          GrStringDrawCentered str2 64 40])"

text \<open>C division of the non-negative sizes of lines 40 and 41 is \<open>div\<close>.\<close>

definition drawButton :: "MyButton \<Rightarrow> draw_op list" where
  "drawButton btn =
     (let bgColor = (if pressed btn then ClrBlack else ClrGray);
          textColor = (if pressed btn then ClrWhite else ClrBlack);
          x0 = btn_x btn; y0 = btn_y btn;
          x1 = btn_x btn + btn_w btn - 1; y1 = btn_y btn + btn_h btn - 1
      in [GrContextForegroundSet_low16 bgColor,
          GrRectFill x0 y0 x1 y1,
          GrContextForegroundSet ClrBlack,
          GrRectDraw x0 y0 x1 y1,
          GrContextForegroundSet_low16 textColor,
          GrStringDrawCentered (label btn)
            (btn_x btn + btn_w btn div 2) (btn_y btn + btn_h btn div 2)])"

subsection \<open>The phases of one loop iteration (lines 95 to 188)\<close>

text \<open>Lines 97 to 101.\<close>

definition poll_buttons :: "config \<Rightarrow> inputs \<Rightarrow> state \<Rightarrow> state" where
  "poll_buttons cfg inp s =
     (if meter_read cfg (buttonTick s) (now inp L97) \<ge> BUTTON_TICK_MS
      then s\<lparr>buttonTick := meter_reset (now inp L100)\<rparr>
      else s)"

text \<open>Lines 104 to 120.\<close>

definition dispatch_edges :: "inputs \<Rightarrow> state \<Rightarrow> state" where
  "dispatch_edges inp s =
     (let s1 = (if playPause_wasPressed inp
                then onPlayPauseClick (s\<lparr>btnStart := (btnStart s)\<lparr>pressed := True\<rparr>\<rparr>)
                else s);
          s2 = (if playPause_wasReleased inp
                then onPlayPauseRelease (s1\<lparr>btnStart := (btnStart s1)\<lparr>pressed := False\<rparr>\<rparr>)
                else s1);
          s3 = (if reset_wasPressed inp
                then onResetClick (s2\<lparr>guiBtnReset := (guiBtnReset s2)\<lparr>pressed := True\<rparr>\<rparr>)
                else s2);
          s4 = (if reset_wasReleased inp
                then onResetRelease (s3\<lparr>guiBtnReset := (guiBtnReset s3)\<lparr>pressed := False\<rparr>\<rparr>)
                else s3)
      in s4)"

text \<open>Lines 123 to 131. \<open>stopwatch_delta\<close> is the local \<^verbatim>\<open>delta\<close> of line 124.\<close>

definition stopwatch_delta :: "config \<Rightarrow> inputs \<Rightarrow> state \<Rightarrow> u32" where
  "stopwatch_delta cfg inp s = meter_read cfg (stopwatchTick s) (now inp L124)"

definition stopwatch_logic :: "config \<Rightarrow> inputs \<Rightarrow> state \<Rightarrow> state" where
  "stopwatch_logic cfg inp s =
     (if gRunning s then
        (let delta = stopwatch_delta cfg inp s
         in if delta > 0
            then s\<lparr>gStopwatchMs := gStopwatchMs s + delta,
                   stopwatchTick := meter_reset (now inp L127)\<rparr>
            else s)
      else s\<lparr>stopwatchTick := meter_reset (now inp L130)\<rparr>)"

text \<open>Lines 135 to 138 and 179: the values derived from the accumulator.\<close>

definition currentSec_of :: "u32 \<Rightarrow> u32" where
  "currentSec_of ms = ms div 1000"

definition currentMin_of :: "u32 \<Rightarrow> u32" where
  "currentMin_of ms = ms div 60000"

definition currentHr_of :: "u32 \<Rightarrow> u32" where
  "currentHr_of ms = ms div 3600000"

definition currentMS_of :: "u32 \<Rightarrow> u32" where
  "currentMS_of ms = ms div 1"

text \<open>Lines 140 to 142: the condition of the branch that draws.\<close>

definition repaint_cond :: "config \<Rightarrow> inputs \<Rightarrow> u32 \<Rightarrow> state \<Rightarrow> bool" where
  "repaint_cond cfg inp currentSec s =
     (currentSec \<noteq> lastDisplayedSec s
      \<or> gRunning s \<noteq> lastRunning s
      \<or> meter_read cfg (displayTick s) (now inp L142) \<ge> DISPLAY_REFRESH_MS)"

text \<open>Lines 144 to 151: the calls of the branch that draws.\<close>

definition frame :: "config \<Rightarrow> u32 \<Rightarrow> u32 \<Rightarrow> u32 \<Rightarrow> u32 \<Rightarrow> state \<Rightarrow> draw_op list" where
  "frame cfg currentSec currentMin currentHr currentMS s =
     drawStopwatchScreen currentSec currentMin currentHr currentMS (gRunning s)
     @ [drawStopwatchScreen_prototype currentSec (gRunning s)]
     @ drawButton (btnStart s)
     @ drawButton (guiBtnReset s)
     @ (if GrFlush_defined cfg then [GrFlush] else [])"

text \<open>Lines 140 to 156.\<close>

definition repaint ::
  "config \<Rightarrow> inputs \<Rightarrow> u32 \<Rightarrow> u32 \<Rightarrow> u32 \<Rightarrow> u32 \<Rightarrow> state \<Rightarrow> state \<times> draw_op list" where
  "repaint cfg inp currentSec currentMin currentHr currentMS s =
     (if repaint_cond cfg inp currentSec s
      then (s\<lparr>lastDisplayedSec := currentSec,
              lastRunning := gRunning s,
              displayTick := meter_reset (now inp L155)\<rparr>,
            frame cfg currentSec currentMin currentHr currentMS s)
      else (s, []))"

text \<open>Lines 159 to 166, 169 to 176 and 180 to 187: the three branches that only update.\<close>

definition update_min :: "config \<Rightarrow> inputs \<Rightarrow> u32 \<Rightarrow> state \<Rightarrow> state" where
  "update_min cfg inp currentMin s =
     (if currentMin \<noteq> lastDisplayedMin s
         \<or> gRunning s \<noteq> lastRunning s
         \<or> meter_read cfg (displayTick s) (now inp L161) \<ge> DISPLAY_REFRESH_MS
      then s\<lparr>lastDisplayedMin := currentMin,
             lastRunning := gRunning s,
             displayTick := meter_reset (now inp L165)\<rparr>
      else s)"

definition update_hr :: "config \<Rightarrow> inputs \<Rightarrow> u32 \<Rightarrow> state \<Rightarrow> state" where
  "update_hr cfg inp currentHr s =
     (if currentHr \<noteq> lastDisplayedHr s
         \<or> gRunning s \<noteq> lastRunning s
         \<or> meter_read cfg (displayTick s) (now inp L171) \<ge> DISPLAY_REFRESH_MS
      then s\<lparr>lastDisplayedHr := currentHr,
             lastRunning := gRunning s,
             displayTick := meter_reset (now inp L175)\<rparr>
      else s)"

definition update_ms :: "config \<Rightarrow> inputs \<Rightarrow> u32 \<Rightarrow> state \<Rightarrow> state" where
  "update_ms cfg inp currentMS s =
     (if currentMS \<noteq> lastDisplayedMS s
         \<or> gRunning s \<noteq> lastRunning s
         \<or> meter_read cfg (displayTick s) (now inp L182) \<ge> DISPLAY_REFRESH_MS
      then s\<lparr>lastDisplayedMS := currentMS,
             lastRunning := gRunning s,
             displayTick := meter_reset (now inp L186)\<rparr>
      else s)"

text \<open>
  The state in which the drawing decision is taken: after the buttons, the edges and
  the stopwatch logic of the iteration.
\<close>

definition before_repaint :: "config \<Rightarrow> inputs \<Rightarrow> state \<Rightarrow> state" where
  "before_repaint cfg inp s = stopwatch_logic cfg inp (dispatch_edges inp (poll_buttons cfg inp s))"

text \<open>One pass through the body of \<^verbatim>\<open>while (true)\<close>: the new state and the calls drawn.\<close>

definition loop_iteration :: "config \<Rightarrow> inputs \<Rightarrow> state \<Rightarrow> state \<times> draw_op list" where
  "loop_iteration cfg inp s =
     (let s3 = before_repaint cfg inp s;
          currentSec = currentSec_of (gStopwatchMs s3);
          currentMin = currentMin_of (gStopwatchMs s3);
          currentHr = currentHr_of (gStopwatchMs s3);
          currentMS = gStopwatchMs s3;
          (s4, drawn) = repaint cfg inp currentSec currentMin currentHr currentMS s3;
          s5 = update_min cfg inp currentMin s4;
          s6 = update_hr cfg inp currentHr s5;
          currentMS = currentMS_of (gStopwatchMs s6);
          s7 = update_ms cfg inp currentMS s6
      in (s7, drawn))"

text \<open>
  The loop over a finite prefix of its inputs, and the state it reaches. The states the program can be in at the top of its loop are the states
  \<open>run cfg ins (init_state t)\<close>.
\<close>

fun run :: "config \<Rightarrow> inputs list \<Rightarrow> state \<Rightarrow> state" where
  "run cfg [] s = s"
| "run cfg (inp # rest) s = run cfg rest (fst (loop_iteration cfg inp s))"

text \<open>The values of \<^verbatim>\<open>delta\<close> read in the successive iterations (0 where line 124 is not reached).\<close>

fun deltas :: "config \<Rightarrow> inputs list \<Rightarrow> state \<Rightarrow> u32 list" where
  "deltas cfg [] s = []"
| "deltas cfg (inp # rest) s =
     (let s2 = dispatch_edges inp (poll_buttons cfg inp s)
      in (if gRunning s2 then stopwatch_delta cfg inp s2 else 0))
     # deltas cfg rest (fst (loop_iteration cfg inp s))"

subsection \<open>Concrete runs\<close>

text \<open>
  Inputs and states on which the statements below are evaluated: the clock of line 72
  at its requested 120 MHz (120000 ticks per millisecond), iterations in which every
  place sees the counter value \<open>t\<close>, and the state at power-on with the counter at 0.
\<close>

definition clock_120MHz :: config where
  "clock_120MHz = \<lparr>gSystemClock = 120000000, GrFlush_defined = True\<rparr>"

definition no_edges :: "u32 \<Rightarrow> inputs" where
  "no_edges t =
     \<lparr>now = (\<lambda>p. t), playPause_wasPressed = False, playPause_wasReleased = False,
      reset_wasPressed = False, reset_wasReleased = False\<rparr>"

definition press_playPause :: "u32 \<Rightarrow> inputs" where
  "press_playPause t = (no_edges t)\<lparr>playPause_wasPressed := True\<rparr>"

definition power_on :: state where
  "power_on = init_state (\<lambda>p. 0)"


definition just_started :: state where
  "just_started = fst (loop_iteration clock_120MHz (press_playPause 0) power_on)"

definition about_to_wrap :: state where
  "about_to_wrap = just_started\<lparr>gStopwatchMs := 4294967295\<rparr>"

text \<open>The state after a first iteration without input, 5 ms after power-on.\<close>

definition paused_at_5ms :: state where
  "paused_at_5ms = fst (loop_iteration clock_120MHz (no_edges 600000) power_on)"

section \<open>Properties\<close>

subsection \<open>What each phase leaves alone\<close>

lemma meter_read_self: "meter_read cfg t t = 0"
  by (simp add: meter_read_def)

lemma poll_buttons_frame:
  "gStopwatchMs (poll_buttons cfg inp s) = gStopwatchMs s"
  "gRunning (poll_buttons cfg inp s) = gRunning s"
  "btnStart (poll_buttons cfg inp s) = btnStart s"
  "guiBtnReset (poll_buttons cfg inp s) = guiBtnReset s"
  "stopwatchTick (poll_buttons cfg inp s) = stopwatchTick s"
  "displayTick (poll_buttons cfg inp s) = displayTick s"
  "lastDisplayedSec (poll_buttons cfg inp s) = lastDisplayedSec s"
  "lastRunning (poll_buttons cfg inp s) = lastRunning s"
  by (simp_all add: poll_buttons_def)

lemmas callbacks_def =
  onPlayPauseClick_def onPlayPauseRelease_def onResetClick_def onResetRelease_def

lemma dispatch_edges_gRunning:
  "gRunning (dispatch_edges inp s) =
     (if playPause_wasPressed inp then \<not> gRunning s else gRunning s)"
  by (simp add: dispatch_edges_def Let_def callbacks_def)

lemma dispatch_edges_gStopwatchMs:
  "gStopwatchMs (dispatch_edges inp s) = (if reset_wasPressed inp then 0 else gStopwatchMs s)"
  by (simp add: dispatch_edges_def Let_def callbacks_def)

lemma dispatch_edges_label:
  "label (btnStart (dispatch_edges inp s)) =
     (if playPause_wasPressed inp then (if gRunning s then ''PLAY'' else ''PAUSE'')
      else label (btnStart s))"
  by (simp add: dispatch_edges_def Let_def callbacks_def)

lemma dispatch_edges_frame:
  "stopwatchTick (dispatch_edges inp s) = stopwatchTick s"
  "displayTick (dispatch_edges inp s) = displayTick s"
  "buttonTick (dispatch_edges inp s) = buttonTick s"
  "lastDisplayedSec (dispatch_edges inp s) = lastDisplayedSec s"
  "lastRunning (dispatch_edges inp s) = lastRunning s"
  by (simp_all add: dispatch_edges_def Let_def callbacks_def)

lemma stopwatch_logic_frame:
  "gRunning (stopwatch_logic cfg inp s) = gRunning s"
  "btnStart (stopwatch_logic cfg inp s) = btnStart s"
  "guiBtnReset (stopwatch_logic cfg inp s) = guiBtnReset s"
  "displayTick (stopwatch_logic cfg inp s) = displayTick s"
  "lastDisplayedSec (stopwatch_logic cfg inp s) = lastDisplayedSec s"
  "lastRunning (stopwatch_logic cfg inp s) = lastRunning s"
  by (simp_all add: stopwatch_logic_def Let_def)

lemma stopwatch_logic_gStopwatchMs:
  "gStopwatchMs (stopwatch_logic cfg inp s) =
     gStopwatchMs s + (if gRunning s then stopwatch_delta cfg inp s else 0)"
  by (simp add: stopwatch_logic_def Let_def word_greater_zero_iff)

lemma before_repaint_frame:
  "gRunning (before_repaint cfg inp s) = gRunning (dispatch_edges inp (poll_buttons cfg inp s))"
  "displayTick (before_repaint cfg inp s) = displayTick s"
  "lastDisplayedSec (before_repaint cfg inp s) = lastDisplayedSec s"
  "lastRunning (before_repaint cfg inp s) = lastRunning s"
  by (simp_all add: before_repaint_def stopwatch_logic_frame dispatch_edges_frame
      poll_buttons_frame)

lemma repaint_frame:
  "gStopwatchMs (fst (repaint cfg inp cs cm ch cms s)) = gStopwatchMs s"
  "gRunning (fst (repaint cfg inp cs cm ch cms s)) = gRunning s"
  "btnStart (fst (repaint cfg inp cs cm ch cms s)) = btnStart s"
  "guiBtnReset (fst (repaint cfg inp cs cm ch cms s)) = guiBtnReset s"
  "stopwatchTick (fst (repaint cfg inp cs cm ch cms s)) = stopwatchTick s"
  by (simp_all add: repaint_def)

lemma update_min_frame:
  "gStopwatchMs (update_min cfg inp c s) = gStopwatchMs s"
  "gRunning (update_min cfg inp c s) = gRunning s"
  "btnStart (update_min cfg inp c s) = btnStart s"
  "guiBtnReset (update_min cfg inp c s) = guiBtnReset s"
  "stopwatchTick (update_min cfg inp c s) = stopwatchTick s"
  "lastDisplayedSec (update_min cfg inp c s) = lastDisplayedSec s"
  by (simp_all add: update_min_def)

lemma update_hr_frame:
  "gStopwatchMs (update_hr cfg inp c s) = gStopwatchMs s"
  "gRunning (update_hr cfg inp c s) = gRunning s"
  "btnStart (update_hr cfg inp c s) = btnStart s"
  "guiBtnReset (update_hr cfg inp c s) = guiBtnReset s"
  "stopwatchTick (update_hr cfg inp c s) = stopwatchTick s"
  "lastDisplayedSec (update_hr cfg inp c s) = lastDisplayedSec s"
  by (simp_all add: update_hr_def)

lemma update_ms_frame:
  "gStopwatchMs (update_ms cfg inp c s) = gStopwatchMs s"
  "gRunning (update_ms cfg inp c s) = gRunning s"
  "btnStart (update_ms cfg inp c s) = btnStart s"
  "guiBtnReset (update_ms cfg inp c s) = guiBtnReset s"
  "stopwatchTick (update_ms cfg inp c s) = stopwatchTick s"
  "lastDisplayedSec (update_ms cfg inp c s) = lastDisplayedSec s"
  by (simp_all add: update_ms_def)

lemmas after_repaint_frame = repaint_frame update_min_frame update_hr_frame update_ms_frame



lemma loop_iteration_fst:
  "fst (loop_iteration cfg inp s) =
     (let s3 = before_repaint cfg inp s;
          s4 = fst (repaint cfg inp (currentSec_of (gStopwatchMs s3))
                 (currentMin_of (gStopwatchMs s3)) (currentHr_of (gStopwatchMs s3))
                 (gStopwatchMs s3) s3);
          s5 = update_min cfg inp (currentMin_of (gStopwatchMs s3)) s4;
          s6 = update_hr cfg inp (currentHr_of (gStopwatchMs s3)) s5
      in update_ms cfg inp (currentMS_of (gStopwatchMs s6)) s6)"
  by (simp add: loop_iteration_def Let_def split: prod.split)

lemma loop_iteration_snd:
  "snd (loop_iteration cfg inp s) =
     (let s3 = before_repaint cfg inp s
      in snd (repaint cfg inp (currentSec_of (gStopwatchMs s3))
            (currentMin_of (gStopwatchMs s3)) (currentHr_of (gStopwatchMs s3))
            (gStopwatchMs s3) s3))"
  by (simp add: loop_iteration_def Let_def split: prod.split)

lemma loop_iteration_frame:
  "gStopwatchMs (fst (loop_iteration cfg inp s)) = gStopwatchMs (before_repaint cfg inp s)"
  "gRunning (fst (loop_iteration cfg inp s)) = gRunning (before_repaint cfg inp s)"
  "btnStart (fst (loop_iteration cfg inp s)) = btnStart (before_repaint cfg inp s)"
  "guiBtnReset (fst (loop_iteration cfg inp s)) = guiBtnReset (before_repaint cfg inp s)"
  "stopwatchTick (fst (loop_iteration cfg inp s)) = stopwatchTick (before_repaint cfg inp s)"
  by (simp_all add: loop_iteration_fst Let_def after_repaint_frame)



lemma frame_nonempty: "frame cfg cs cm ch cms s \<noteq> []"
  by (simp add: frame_def drawStopwatchScreen_def Let_def)

subsection \<open>The concrete runs, evaluated\<close>

lemmas phase_defs =
  loop_iteration_def before_repaint_def poll_buttons_def dispatch_edges_def callbacks_def
  stopwatch_logic_def stopwatch_delta_def repaint_def repaint_cond_def update_min_def
  update_hr_def update_ms_def meter_read_def meter_reset_def ticks_per_ms_def
  currentSec_of_def currentMin_of_def currentHr_of_def currentMS_of_def
  BUTTON_TICK_MS_def DISPLAY_REFRESH_MS_def

lemmas fixture_defs =
  clock_120MHz_def no_edges_def press_playPause_def power_on_def
  init_state_def btnStart_init_def guiBtnReset_init_def

lemmas draw_defs =
  frame_def drawStopwatchScreen_def drawButton_def snprintf_def fmt_02u_def digit_char_def

lemma power_on_fields:
  "\<not> gRunning power_on" "gStopwatchMs power_on = 0" "stopwatchTick power_on = 0"
  "displayTick power_on = 0" "lastDisplayedSec power_on = - 1" "lastRunning power_on"
  "label (btnStart power_on) = ''PLAY''"
  by (simp_all add: fixture_defs)



lemma just_started_eq:
  "just_started = power_on\<lparr>gRunning := True,
     btnStart := btnStart_init\<lparr>label := ''PAUSE'', pressed := True\<rparr>,
     lastDisplayedSec := 0, lastDisplayedMin := 0, lastDisplayedHr := 0,
     lastDisplayedMS := 0\<rparr>"
  by (simp add: just_started_def phase_defs fixture_defs Let_def)

lemma just_started_fields:
  "gRunning just_started" "gStopwatchMs just_started = 0" "stopwatchTick just_started = 0"
  "label (btnStart just_started) = ''PAUSE''"
  by (simp_all add: just_started_eq fixture_defs)

lemma about_to_wrap_fields:
  "gRunning about_to_wrap" "gStopwatchMs about_to_wrap = 4294967295"
  "stopwatchTick about_to_wrap = 0"
  by (simp_all add: about_to_wrap_def just_started_fields)

lemma paused_at_5ms_eq:
  "paused_at_5ms = power_on\<lparr>stopwatchTick := 600000, displayTick := 600000,
     lastDisplayedSec := 0, lastDisplayedMin := 0, lastDisplayedHr := 0,
     lastDisplayedMS := 0, lastRunning := False\<rparr>"
  by (simp add: paused_at_5ms_def phase_defs fixture_defs Let_def)

lemma paused_at_5ms_fields:
  "\<not> gRunning paused_at_5ms" "gStopwatchMs paused_at_5ms = 0"
  "stopwatchTick paused_at_5ms = 600000"
  by (simp_all add: paused_at_5ms_eq fixture_defs)

lemma example_run:
  "run clock_120MHz [press_playPause 0, no_edges 600000, no_edges 1800000] power_on
     = just_started\<lparr>gStopwatchMs := 15, stopwatchTick := 1800000, displayTick := 1800000,
         lastDisplayedMS := 15\<rparr>"
  "deltas clock_120MHz [press_playPause 0, no_edges 600000, no_edges 1800000] power_on
     = [0, 5, 10]"
  by (simp_all add: just_started_eq phase_defs fixture_defs Let_def)

subsection \<open>Word arithmetic\<close>

lemma max_u32: "(- 1 :: u32) = 4294967295"
  by simp

lemma currentSec_of_not_max: "currentSec_of ms \<noteq> - 1"
proof -
  have "unat (currentSec_of ms) = unat ms div 1000"
    by (simp add: currentSec_of_def unat_div)
  moreover have "unat ms < 2 ^ 32"
    using unsigned_less [of ms, where ?'a = nat] by simp
  ultimately have "unat (currentSec_of ms) < 4294967295"
    by simp
  moreover have "unat (- 1 :: u32) = 4294967295"
    unfolding max_u32 by simp
  ultimately show ?thesis
    by (metis less_irrefl)
qed

lemma unat_word_sum_list:
  "unat (a + sum_list ds) = (unat a + sum_list (map unat ds)) mod 2 ^ 32" for a :: u32
proof (induction ds arbitrary: a)
  case Nil
  show ?case using unsigned_less [of a, where ?'a = nat] by simp
next
  case (Cons d ds)
  have "unat (a + sum_list (d # ds)) = unat ((a + d) + sum_list ds)"
    by (simp add: add.assoc)
  also have "\<dots> = (unat (a + d) + sum_list (map unat ds)) mod 2 ^ 32"
    by (rule Cons.IH)
  also have "\<dots> = ((unat a + unat d) mod 2 ^ 32 + sum_list (map unat ds)) mod 2 ^ 32"
    by (simp add: unat_word_ariths)
  also have "\<dots> = (unat a + sum_list (map unat (d # ds))) mod 2 ^ 32"
    by (simp add: mod_add_left_eq add.assoc)
  finally show ?case .
qed

subsection \<open>Time accumulation\<close>

lemma loop_iteration_adds_delta:
  "\<not> reset_wasPressed inp \<Longrightarrow>
   gStopwatchMs (fst (loop_iteration cfg inp s)) =
     gStopwatchMs s
     + (let s2 = dispatch_edges inp (poll_buttons cfg inp s)
        in if gRunning s2 then stopwatch_delta cfg inp s2 else 0)"
  by (simp add: loop_iteration_frame before_repaint_def stopwatch_logic_gStopwatchMs
      dispatch_edges_gStopwatchMs poll_buttons_frame Let_def)

lemma run_sums_deltas:
  "\<forall>inp \<in> set ins. \<not> reset_wasPressed inp \<Longrightarrow>
   gStopwatchMs (run cfg ins s) = gStopwatchMs s + sum_list (deltas cfg ins s)"
proof (induction ins arbitrary: s)
  case Nil
  show ?case by simp
next
  case (Cons inp rest)
  have quiet: "\<not> reset_wasPressed inp" and rest: "\<forall>i \<in> set rest. \<not> reset_wasPressed i"
    using Cons.prems by simp_all
  show ?case
    using Cons.IH [OF rest, of "fst (loop_iteration cfg inp s)"]
      loop_iteration_adds_delta [OF quiet, of cfg s]
    by (simp add: Let_def add.assoc)
qed

lemma paused_iteration:
  "\<not> gRunning (dispatch_edges inp (poll_buttons cfg inp s)) \<Longrightarrow>
   stopwatchTick (fst (loop_iteration cfg inp s)) = now inp L130"
  by (simp add: loop_iteration_frame before_repaint_def stopwatch_logic_def meter_reset_def)

lemma resume_iteration_adds:
  "\<not> gRunning s \<Longrightarrow> playPause_wasPressed inp \<Longrightarrow> \<not> reset_wasPressed inp \<Longrightarrow>
   gStopwatchMs (fst (loop_iteration cfg inp s))
     = gStopwatchMs s + meter_read cfg (stopwatchTick s) (now inp L124)"
  by (simp add: loop_iteration_frame before_repaint_def stopwatch_logic_gStopwatchMs
      dispatch_edges_gStopwatchMs dispatch_edges_gRunning dispatch_edges_frame
      poll_buttons_frame stopwatch_delta_def)

lemma resume_examples:
  "gStopwatchMs (fst (loop_iteration clock_120MHz (press_playPause 1200000) paused_at_5ms)) = 5"
  "gStopwatchMs (fst (loop_iteration clock_120MHz (press_playPause 4200000000) paused_at_5ms))
     = 34995"
  by (simp_all add: resume_iteration_adds paused_at_5ms_fields press_playPause_def no_edges_def
      meter_read_def ticks_per_ms_def clock_120MHz_def)

text \<open>
  C1, as the code has it. In the stopwatch phase of an iteration (lines 123 to 131):
  when the stopwatch is running, the meter is read as \<open>delta\<close>; when \<open>delta > 0\<close>,
  exactly \<open>delta\<close> is added to \<^verbatim>\<open>gStopwatchMs\<close> (32-bit addition) and the meter is
  reset, so that it reads 0 at the moment of the reset; when \<open>delta = 0\<close> nothing
  changes. When the stopwatch is not running, \<^verbatim>\<open>gStopwatchMs\<close> is unchanged and the
  meter is reset. Hence over any sequence of iterations without a Reset press,
  \<^verbatim>\<open>gStopwatchMs\<close> grows by the sum of the deltas read in the iterations (none is read
  in an iteration spent paused). After an iteration spent paused nothing has been
  added and the next delta is measured from that iteration's reset. An iteration that
  resumes (the stopwatch is paused on entry, Play/Pause reports a press and Reset does
  not) adds the time between the last reset of the meter and its own read at line 124:
  the idle time before that reset is not added, the idle time after it is.
\<close>

theorem stopwatch_accumulates_deltas:
  "(gRunning s \<and> 0 < stopwatch_delta cfg inp s \<longrightarrow>
        gStopwatchMs (stopwatch_logic cfg inp s) = gStopwatchMs s + stopwatch_delta cfg inp s
      \<and> stopwatchTick (stopwatch_logic cfg inp s) = now inp L127
      \<and> meter_read cfg (stopwatchTick (stopwatch_logic cfg inp s)) (now inp L127) = 0)
   \<and> (gRunning s \<and> stopwatch_delta cfg inp s = 0 \<longrightarrow> stopwatch_logic cfg inp s = s)
   \<and> (\<not> gRunning s \<longrightarrow>
        gStopwatchMs (stopwatch_logic cfg inp s) = gStopwatchMs s
      \<and> stopwatchTick (stopwatch_logic cfg inp s) = now inp L130
      \<and> meter_read cfg (stopwatchTick (stopwatch_logic cfg inp s)) (now inp L130) = 0)
   \<and> ((\<forall>i \<in> set ins. \<not> reset_wasPressed i) \<longrightarrow>
        gStopwatchMs (run cfg ins s) = gStopwatchMs s + sum_list (deltas cfg ins s))
   \<and> (\<not> gRunning (dispatch_edges inp (poll_buttons cfg inp s)) \<longrightarrow>
        gStopwatchMs (fst (loop_iteration cfg inp s))
          = gStopwatchMs (dispatch_edges inp (poll_buttons cfg inp s))
      \<and> stopwatch_delta cfg inp'
            (dispatch_edges inp' (poll_buttons cfg inp' (fst (loop_iteration cfg inp s))))
          = meter_read cfg (now inp L130) (now inp' L124))
   \<and> (\<not> gRunning s \<and> playPause_wasPressed inp \<and> \<not> reset_wasPressed inp \<longrightarrow>
        gStopwatchMs (fst (loop_iteration cfg inp s))
          = gStopwatchMs s + meter_read cfg (stopwatchTick s) (now inp L124))"
proof (intro conjI impI)
  assume r: "gRunning s \<and> 0 < stopwatch_delta cfg inp s"
  then show "gStopwatchMs (stopwatch_logic cfg inp s) = gStopwatchMs s + stopwatch_delta cfg inp s"
    by (simp add: stopwatch_logic_gStopwatchMs)
  from r show t: "stopwatchTick (stopwatch_logic cfg inp s) = now inp L127"
    by (simp add: stopwatch_logic_def Let_def meter_reset_def)
  show "meter_read cfg (stopwatchTick (stopwatch_logic cfg inp s)) (now inp L127) = 0"
    by (simp add: t meter_read_self)
next
  assume "gRunning s \<and> stopwatch_delta cfg inp s = 0"
  then show "stopwatch_logic cfg inp s = s"
    by (simp add: stopwatch_logic_def Let_def)
next
  assume p: "\<not> gRunning s"
  then show "gStopwatchMs (stopwatch_logic cfg inp s) = gStopwatchMs s"
    by (simp add: stopwatch_logic_gStopwatchMs)
  from p show t: "stopwatchTick (stopwatch_logic cfg inp s) = now inp L130"
    by (simp add: stopwatch_logic_def meter_reset_def)
  show "meter_read cfg (stopwatchTick (stopwatch_logic cfg inp s)) (now inp L130) = 0"
    by (simp add: t meter_read_self)
next
  assume "\<forall>i \<in> set ins. \<not> reset_wasPressed i"
  then show "gStopwatchMs (run cfg ins s) = gStopwatchMs s + sum_list (deltas cfg ins s)"
    by (rule run_sums_deltas)
next
  assume p: "\<not> gRunning (dispatch_edges inp (poll_buttons cfg inp s))"
  then show "gStopwatchMs (fst (loop_iteration cfg inp s))
          = gStopwatchMs (dispatch_edges inp (poll_buttons cfg inp s))"
    by (simp add: loop_iteration_frame before_repaint_def stopwatch_logic_gStopwatchMs)
  from p show "stopwatch_delta cfg inp'
            (dispatch_edges inp' (poll_buttons cfg inp' (fst (loop_iteration cfg inp s))))
          = meter_read cfg (now inp L130) (now inp' L124)"
    by (simp add: stopwatch_delta_def dispatch_edges_frame poll_buttons_frame paused_iteration)
next
  assume "\<not> gRunning s \<and> playPause_wasPressed inp \<and> \<not> reset_wasPressed inp"
  then show "gStopwatchMs (fst (loop_iteration cfg inp s))
          = gStopwatchMs s + meter_read cfg (stopwatchTick s) (now inp L124)"
    by (simp add: resume_iteration_adds)
qed

text \<open>
  At 120 MHz: 5 ms after the start the running stopwatch reads and adds 5; with no
  time passed it reads 0 and changes nothing; at power-on (paused) nothing is added
  and the meter is reset; the run "press Play, 5 ms, 10 ms more" reads the deltas
  0, 5, 10 and ends at 15; and after a paused iteration at 5 ms a press at 10 ms reads
  5, not 10, and adds it.
\<close>

theorem stopwatch_accumulates_deltas_witness:
  "gRunning just_started
   \<and> 0 < stopwatch_delta clock_120MHz (no_edges 600000) just_started
   \<and> stopwatch_delta clock_120MHz (no_edges 600000) just_started = 5
   \<and> gStopwatchMs (stopwatch_logic clock_120MHz (no_edges 600000) just_started) = 5
   \<and> stopwatchTick (stopwatch_logic clock_120MHz (no_edges 600000) just_started) = 600000
   \<and> stopwatch_delta clock_120MHz (no_edges 0) just_started = 0
   \<and> stopwatch_logic clock_120MHz (no_edges 0) just_started = just_started
   \<and> \<not> gRunning power_on
   \<and> gStopwatchMs (stopwatch_logic clock_120MHz (no_edges 600000) power_on) = 0
   \<and> stopwatchTick (stopwatch_logic clock_120MHz (no_edges 600000) power_on) = 600000
   \<and> \<not> reset_wasPressed (press_playPause 0)
   \<and> \<not> reset_wasPressed (no_edges 600000)
   \<and> \<not> reset_wasPressed (no_edges 1800000)
   \<and> deltas clock_120MHz [press_playPause 0, no_edges 600000, no_edges 1800000] power_on
       = [0, 5, 10]
   \<and> gStopwatchMs (run clock_120MHz [press_playPause 0, no_edges 600000, no_edges 1800000]
         power_on) = 15
   \<and> \<not> gRunning (dispatch_edges (no_edges 600000)
           (poll_buttons clock_120MHz (no_edges 600000) power_on))
   \<and> gStopwatchMs (fst (loop_iteration clock_120MHz (no_edges 600000) power_on)) = 0
   \<and> stopwatch_delta clock_120MHz (press_playPause 1200000)
         (dispatch_edges (press_playPause 1200000)
           (poll_buttons clock_120MHz (press_playPause 1200000)
             (fst (loop_iteration clock_120MHz (no_edges 600000) power_on)))) = 5
   \<and> \<not> gRunning paused_at_5ms
   \<and> playPause_wasPressed (press_playPause 1200000)
   \<and> \<not> reset_wasPressed (press_playPause 1200000)
   \<and> stopwatchTick paused_at_5ms = 600000
   \<and> gStopwatchMs (fst (loop_iteration clock_120MHz (press_playPause 1200000) paused_at_5ms))
       = 5"
proof -
  have d5: "stopwatch_delta clock_120MHz (no_edges 600000) just_started = 5"
    by (simp add: stopwatch_delta_def meter_read_def ticks_per_ms_def just_started_fields
        clock_120MHz_def no_edges_def)
  have d0: "stopwatch_delta clock_120MHz (no_edges 0) just_started = 0"
    by (simp add: stopwatch_delta_def meter_read_def ticks_per_ms_def just_started_fields
        clock_120MHz_def no_edges_def)
  have quiet: "\<forall>i \<in> set [press_playPause 0, no_edges 600000, no_edges 1800000].
      \<not> reset_wasPressed i"
    by (simp add: press_playPause_def no_edges_def)
  have paused: "\<not> gRunning (dispatch_edges (no_edges 600000)
           (poll_buttons clock_120MHz (no_edges 600000) power_on))"
    by (simp add: dispatch_edges_gRunning poll_buttons_frame power_on_fields no_edges_def)
  have m5: "meter_read clock_120MHz 600000 (now (press_playPause 1200000) L124) = 5"
    by (simp add: meter_read_def ticks_per_ms_def clock_120MHz_def no_edges_def
        press_playPause_def)
  have now: "now (no_edges 600000) L127 = 600000" "now (no_edges 600000) L130 = 600000"
    by (simp_all add: no_edges_def)
  have z: "gStopwatchMs (dispatch_edges (no_edges 600000)
           (poll_buttons clock_120MHz (no_edges 600000) power_on)) = 0"
    by (simp add: dispatch_edges_gStopwatchMs poll_buttons_frame power_on_fields no_edges_def)
  have pressed: "playPause_wasPressed (press_playPause 1200000)"
    "\<not> reset_wasPressed (press_playPause 1200000)"
    by (simp_all add: press_playPause_def no_edges_def)
  show ?thesis
    using stopwatch_accumulates_deltas [of just_started clock_120MHz "no_edges 600000" "[]"]
      stopwatch_accumulates_deltas [of just_started clock_120MHz "no_edges 0" "[]"]
      stopwatch_accumulates_deltas [of power_on clock_120MHz "no_edges 600000"
        "[press_playPause 0, no_edges 600000, no_edges 1800000]" "press_playPause 1200000"]
      stopwatch_accumulates_deltas [of paused_at_5ms clock_120MHz "press_playPause 1200000"
        "[]"]
      quiet paused pressed
    by (simp add: d5 d0 m5 now z just_started_fields power_on_fields paused_at_5ms_fields
        example_run del: run.simps deltas.simps)
qed

text \<open>
  C1, against its last clause, that no paused idle time is added on resume. The
  stopwatch is paused from power-on; an iteration at 5 ms resets the meter; the
  iteration at 10 ms, all of whose places see the counter at 10 ms, reports the press.
  The accumulator then holds 5: the 5 ms spent paused since the reset. With the press
  iteration at 35 s instead, it holds 34995.
\<close>

theorem resume_adds_paused_time_counterexample:
  "\<not> gRunning power_on
   \<and> \<not> gRunning (run clock_120MHz [no_edges 600000] power_on)
   \<and> gStopwatchMs (run clock_120MHz [no_edges 600000] power_on) = 0
   \<and> now (press_playPause 1200000) L97 = 1200000
   \<and> now (press_playPause 1200000) L124 = 1200000
   \<and> gStopwatchMs (run clock_120MHz [no_edges 600000, press_playPause 1200000] power_on) = 5
   \<and> gStopwatchMs (run clock_120MHz [no_edges 600000, press_playPause 4200000000] power_on)
       = 34995"
proof -
  have a: "run clock_120MHz [no_edges 600000] power_on = paused_at_5ms"
    by (simp add: paused_at_5ms_def)
  have b: "run clock_120MHz [no_edges 600000, inp] power_on
      = fst (loop_iteration clock_120MHz inp paused_at_5ms)" for inp
    by (simp add: paused_at_5ms_def)
  have n: "now (press_playPause 1200000) p = 1200000" for p
    by (simp add: press_playPause_def no_edges_def)
  show ?thesis
    unfolding a b
    by (simp add: n resume_examples paused_at_5ms_fields power_on_fields)
qed

text \<open>
  C9. The accumulator is a 32-bit unsigned word and line 126 adds to it modulo
  \<open>2 ^ 32\<close>: read as natural numbers, the value after the stopwatch phase of a running
  iteration is the old value plus the delta, reduced modulo \<open>2 ^ 32\<close>, and the value
  after any sequence of iterations without a Reset press is the old value plus all the
  deltas read, reduced modulo \<open>2 ^ 32\<close>. Nothing saturates. \<open>2 ^ 32\<close> milliseconds lie
  between 49.7 and 49.8 days (a tenth of a day is 8640000 ms).
\<close>

theorem elapsed_wraps_modulo_2_32:
  "(gRunning s \<longrightarrow>
      unat (gStopwatchMs (stopwatch_logic cfg inp s))
        = (unat (gStopwatchMs s) + unat (stopwatch_delta cfg inp s)) mod 2 ^ 32)
   \<and> ((\<forall>i \<in> set ins. \<not> reset_wasPressed i) \<longrightarrow>
      unat (gStopwatchMs (run cfg ins s))
        = (unat (gStopwatchMs s) + sum_list (map unat (deltas cfg ins s))) mod 2 ^ 32)
   \<and> (497 * 8640000 < (2::nat) ^ 32 \<and> (2::nat) ^ 32 < 498 * 8640000)"
proof (intro conjI impI)
  assume "gRunning s"
  then show "unat (gStopwatchMs (stopwatch_logic cfg inp s))
        = (unat (gStopwatchMs s) + unat (stopwatch_delta cfg inp s)) mod 2 ^ 32"
    by (simp add: stopwatch_logic_gStopwatchMs unat_word_ariths)
next
  assume "\<forall>i \<in> set ins. \<not> reset_wasPressed i"
  then show "unat (gStopwatchMs (run cfg ins s))
        = (unat (gStopwatchMs s) + sum_list (map unat (deltas cfg ins s))) mod 2 ^ 32"
    by (simp only: run_sums_deltas unat_word_sum_list)
qed simp_all

text \<open>
  With the accumulator at \<open>2 ^ 32 - 1\<close> and the stopwatch running, a delta of 5 leaves
  the accumulator at 4.
\<close>

theorem elapsed_wraps_modulo_2_32_witness:
  "gRunning about_to_wrap
   \<and> unat (gStopwatchMs about_to_wrap) = 2 ^ 32 - 1
   \<and> unat (stopwatch_delta clock_120MHz (no_edges 600000) about_to_wrap) = 5
   \<and> unat (gStopwatchMs (stopwatch_logic clock_120MHz (no_edges 600000) about_to_wrap)) = 4
   \<and> \<not> reset_wasPressed (no_edges 600000)
   \<and> unat (gStopwatchMs (run clock_120MHz [no_edges 600000] about_to_wrap)) = 4"
proof -
  have d: "stopwatch_delta clock_120MHz (no_edges 600000) about_to_wrap = 5"
    by (simp add: stopwatch_delta_def meter_read_def ticks_per_ms_def about_to_wrap_fields
        clock_120MHz_def no_edges_def)
  have q: "\<forall>i \<in> set [no_edges 600000]. \<not> reset_wasPressed i"
    by (simp add: no_edges_def)
  have ds: "deltas clock_120MHz [no_edges 600000] about_to_wrap = [5]"
    by (simp add: dispatch_edges_gRunning poll_buttons_frame about_to_wrap_fields
        stopwatch_delta_def dispatch_edges_frame meter_read_def ticks_per_ms_def
        clock_120MHz_def no_edges_def)
  show ?thesis
    using elapsed_wraps_modulo_2_32 [of about_to_wrap clock_120MHz "no_edges 600000"
        "[no_edges 600000]"] q
    by (simp add: d ds about_to_wrap_fields del: run.simps deltas.simps)
qed

subsection \<open>The repaint decision\<close>



text \<open>
  C10. The first iteration draws, whatever the counter values and the button reports:
  the list drawn is not empty and is the frame of the state reached before the
  decision. The caches start as \<^verbatim>\<open>lastDisplayedSec\<close> \<open>= 2 ^ 32 - 1\<close> and
  \<^verbatim>\<open>lastRunning = !gRunning\<close>, and no accumulator value has \<open>2 ^ 32 - 1\<close> as its seconds
  value, so the first disjunct of the decision holds.
\<close>

theorem first_iteration_repaints:
  "snd (loop_iteration cfg inp (init_state t)) \<noteq> []
   \<and> snd (loop_iteration cfg inp (init_state t))
       = (let s3 = before_repaint cfg inp (init_state t)
          in frame cfg (currentSec_of (gStopwatchMs s3)) (currentMin_of (gStopwatchMs s3))
               (currentHr_of (gStopwatchMs s3)) (gStopwatchMs s3) s3)
   \<and> unat (lastDisplayedSec (init_state t)) = 2 ^ 32 - 1
   \<and> lastRunning (init_state t) = (\<not> gRunning (init_state t))
   \<and> currentSec_of ms \<noteq> lastDisplayedSec (init_state t)"
proof -
  let ?s3 = "before_repaint cfg inp (init_state t)"
  have "lastDisplayedSec ?s3 = - 1"
    by (simp add: before_repaint_frame init_state_def)
  then have "repaint_cond cfg inp (currentSec_of (gStopwatchMs ?s3)) ?s3"
    by (simp add: repaint_cond_def currentSec_of_not_max)
  then have "snd (loop_iteration cfg inp (init_state t))
       = frame cfg (currentSec_of (gStopwatchMs ?s3)) (currentMin_of (gStopwatchMs ?s3))
               (currentHr_of (gStopwatchMs ?s3)) (gStopwatchMs ?s3) ?s3"
    by (simp add: loop_iteration_snd Let_def repaint_def)
  moreover have "unat (lastDisplayedSec (init_state t)) = 2 ^ 32 - 1"
    unfolding init_state_def max_u32 by simp
  moreover have "lastRunning (init_state t) = (\<not> gRunning (init_state t))"
    by (simp add: init_state_def)
  moreover have "currentSec_of ms \<noteq> lastDisplayedSec (init_state t)"
    by (simp add: init_state_def currentSec_of_not_max)
  ultimately show ?thesis
    by (simp add: Let_def frame_nonempty)
qed

subsection \<open>Derived values and the frame drawn\<close>

text \<open>
  C3. What lines 135 to 138 and 179 derive from the accumulator, for every value: the
  hours are \<open>elapsed / 3600000\<close>, the minutes \<open>elapsed / 60000\<close>, the seconds
  \<open>elapsed / 1000\<close> and the milliseconds the accumulator itself; minutes and seconds
  are not reduced modulo 60, nor the milliseconds modulo 1000. At 65001 ms the values
  are 0, 1, 65 and 65001, where the split 00:01:05:001 has seconds 5 and milliseconds
  1; at one hour the minutes are 60.
\<close>

theorem derived_values_at_65001:
  "unat (currentHr_of ms) = unat ms div 3600000
   \<and> unat (currentMin_of ms) = unat ms div 60000
   \<and> unat (currentSec_of ms) = unat ms div 1000
   \<and> currentMS_of ms = ms
   \<and> currentHr_of 65001 = 0 \<and> currentMin_of 65001 = 1
   \<and> currentSec_of 65001 = 65 \<and> currentMS_of 65001 = 65001
   \<and> unat (currentSec_of 65001) \<noteq> (65001 div 1000) mod 60
   \<and> unat (currentMS_of 65001) \<noteq> 65001 mod 1000
   \<and> currentMin_of 3600000 = 60"
  by (simp add: currentSec_of_def currentMin_of_def currentHr_of_def currentMS_of_def
      unat_div)

text \<open>
  C4. The text that \<^verbatim>\<open>drawStopwatchScreen\<close> draws at (64, 50): the second \<^verbatim>\<open>snprintf\<close>
  (line 240) overwrites the buffer of the first, so for all arguments the only text
  drawn there is \<^verbatim>\<open>"%02u s"\<close> of \<^verbatim>\<open>currentSec\<close>. For the split 0, 1, 5, 1 that is
  \<open>05 s\<close>, and for the values the loop derives at 65001 ms it is \<open>65 s\<close>; the first
  \<^verbatim>\<open>snprintf\<close> alone would have left \<open>00:01:65:\<close> in the ten-byte buffer.
\<close>

theorem time_string_is_seconds_only:
  "drawStopwatchScreen 5 1 0 1 True =
     [GrContextForegroundSet ClrBlack,
      GrRectFill 0 0 127 127,
      GrContextForegroundSet ClrCyan,
      GrStringDrawCentered ''STOPWATCH'' 64 15,
      GrContextForegroundSet ClrYellow,
      GrStringDrawCentered ''05 s'' 64 50,
      GrStringDrawCentered ''RUNNING'' 64 40]
   \<and> drawStopwatchScreen 65 1 0 65001 True =
     [GrContextForegroundSet ClrBlack,
      GrRectFill 0 0 127 127,
      GrContextForegroundSet ClrCyan,
      GrStringDrawCentered ''STOPWATCH'' 64 15,
      GrContextForegroundSet ClrYellow,
      GrStringDrawCentered ''65 s'' 64 50,
      GrStringDrawCentered ''RUNNING'' 64 40]
   \<and> snprintf 10 (fmt_02u 0 @ '':'' @ fmt_02u 1 @ '':'' @ fmt_02u 65 @ '':'' @ fmt_02u 65001)
       = ''00:01:65:''
   \<and> (GrStringDrawCentered txt 64 50 \<in> set (drawStopwatchScreen cs cm ch cms r))
       = (txt = snprintf 10 (fmt_02u cs @ '' s''))"
proof (intro conjI)
  show "(GrStringDrawCentered txt 64 50 \<in> set (drawStopwatchScreen cs cm ch cms r))
       = (txt = snprintf 10 (fmt_02u cs @ '' s''))"
    by (simp add: drawStopwatchScreen_def Let_def)
qed (simp_all add: drawStopwatchScreen_def snprintf_def fmt_02u_def digit_char_def
      dec_string.simps Let_def)

text \<open>
  C8. On entry to the loop the accumulator is 0, the stopwatch is not running and the
  first on-screen button is labelled \<open>PLAY\<close>. The first frame, drawn with no button
  input and the counter at 0, contains the state word \<open>STOPPED\<close> and the label
  \<open>PLAY\<close>; the time text it contains is \<open>00 s\<close>, and \<open>00:00:00:000\<close> is not drawn.
\<close>

theorem power_on_first_frame:
  "gStopwatchMs (init_state t) = 0
   \<and> gRunning (init_state t) = False
   \<and> label (btnStart (init_state t)) = ''PLAY''
   \<and> snd (loop_iteration clock_120MHz (no_edges 0) power_on) =
     [GrContextForegroundSet ClrBlack,
      GrRectFill 0 0 127 127,
      GrContextForegroundSet ClrCyan,
      GrStringDrawCentered ''STOPWATCH'' 64 15,
      GrContextForegroundSet ClrOlive,
      GrStringDrawCentered ''00 s'' 64 50,
      GrStringDrawCentered ''STOPPED'' 64 40,
      drawStopwatchScreen_prototype 0 False,
      GrContextForegroundSet_low16 ClrGray,
      GrRectFill 0 80 49 107,
      GrContextForegroundSet ClrBlack,
      GrRectDraw 0 80 49 107,
      GrContextForegroundSet_low16 ClrBlack,
      GrStringDrawCentered ''PLAY'' 25 94,
      GrContextForegroundSet_low16 ClrGray,
      GrRectFill 60 80 109 107,
      GrContextForegroundSet ClrBlack,
      GrRectDraw 60 80 109 107,
      GrContextForegroundSet_low16 ClrBlack,
      GrStringDrawCentered ''RESET'' 85 94,
      GrFlush]"
proof (intro conjI)
  show "snd (loop_iteration clock_120MHz (no_edges 0) power_on) =
     [GrContextForegroundSet ClrBlack,
      GrRectFill 0 0 127 127,
      GrContextForegroundSet ClrCyan,
      GrStringDrawCentered ''STOPWATCH'' 64 15,
      GrContextForegroundSet ClrOlive,
      GrStringDrawCentered ''00 s'' 64 50,
      GrStringDrawCentered ''STOPPED'' 64 40,
      drawStopwatchScreen_prototype 0 False,
      GrContextForegroundSet_low16 ClrGray,
      GrRectFill 0 80 49 107,
      GrContextForegroundSet ClrBlack,
      GrRectDraw 0 80 49 107,
      GrContextForegroundSet_low16 ClrBlack,
      GrStringDrawCentered ''PLAY'' 25 94,
      GrContextForegroundSet_low16 ClrGray,
      GrRectFill 60 80 109 107,
      GrContextForegroundSet ClrBlack,
      GrRectDraw 60 80 109 107,
      GrContextForegroundSet_low16 ClrBlack,
      GrStringDrawCentered ''RESET'' 85 94,
      GrFlush]"
    by (simp add: phase_defs fixture_defs draw_defs dec_string.simps Let_def)
qed (simp_all add: init_state_def btnStart_init_def)

subsection \<open>The model operations\<close>

text \<open>
  C5. For every state, the reset callback sets the accumulator to 0 and leaves the
  running flag as it is, and a second reset changes nothing more. The same holds of
  the edge dispatch of an iteration whose Reset button reports a press: the
  accumulator is 0 afterwards, and when the Play/Pause button reports no press in that
  iteration the running flag is unchanged.
\<close>

theorem reset_clears_elapsed_keeps_running:
  "gStopwatchMs (onResetClick s) = 0
   \<and> gRunning (onResetClick s) = gRunning s
   \<and> onResetClick (onResetClick s) = onResetClick s
   \<and> gStopwatchMs (dispatch_edges (inp\<lparr>reset_wasPressed := True\<rparr>) s) = 0
   \<and> gRunning (dispatch_edges
         (inp\<lparr>reset_wasPressed := True, playPause_wasPressed := False\<rparr>) s) = gRunning s"
  by (simp add: onResetClick_def dispatch_edges_gStopwatchMs dispatch_edges_gRunning)

text \<open>
  C6. For every state, the Play/Pause callback flips the running flag and leaves the
  accumulator as it is. The same holds of the edge dispatch of an iteration whose
  Play/Pause button reports a press: the flag is flipped, and when the Reset button
  reports no press in that iteration the accumulator is unchanged.
\<close>

theorem toggle_flips_running_keeps_elapsed:
  "gRunning (onPlayPauseClick s) = (\<not> gRunning s)
   \<and> gStopwatchMs (onPlayPauseClick s) = gStopwatchMs s
   \<and> gRunning (dispatch_edges (inp\<lparr>playPause_wasPressed := True\<rparr>) s) = (\<not> gRunning s)
   \<and> gStopwatchMs (dispatch_edges
         (inp\<lparr>playPause_wasPressed := True, reset_wasPressed := False\<rparr>) s) = gStopwatchMs s"
  by (simp add: onPlayPauseClick_def dispatch_edges_gStopwatchMs dispatch_edges_gRunning)

subsection \<open>The label of the Play/Pause button\<close>

lemma dispatch_edges_keeps_label:
  "label (btnStart s) = (if gRunning s then ''PAUSE'' else ''PLAY'') \<Longrightarrow>
   label (btnStart (dispatch_edges inp s))
     = (if gRunning (dispatch_edges inp s) then ''PAUSE'' else ''PLAY'')"
  by (simp add: dispatch_edges_label dispatch_edges_gRunning)

lemma before_repaint_keeps_label:
  "label (btnStart s) = (if gRunning s then ''PAUSE'' else ''PLAY'') \<Longrightarrow>
   label (btnStart (before_repaint cfg inp s))
     = (if gRunning (before_repaint cfg inp s) then ''PAUSE'' else ''PLAY'')"
  by (simp add: before_repaint_def stopwatch_logic_frame dispatch_edges_label
      dispatch_edges_gRunning poll_buttons_frame)

lemma loop_iteration_keeps_label:
  "label (btnStart s) = (if gRunning s then ''PAUSE'' else ''PLAY'') \<Longrightarrow>
   label (btnStart (fst (loop_iteration cfg inp s)))
     = (if gRunning (fst (loop_iteration cfg inp s)) then ''PAUSE'' else ''PLAY'')"
  using before_repaint_keeps_label [of s cfg inp]
  by (simp add: loop_iteration_frame)

lemma run_keeps_label:
  "label (btnStart s) = (if gRunning s then ''PAUSE'' else ''PLAY'') \<Longrightarrow>
   label (btnStart (run cfg ins s)) = (if gRunning (run cfg ins s) then ''PAUSE'' else ''PLAY'')"
proof (induction ins arbitrary: s)
  case Nil
  then show ?case by simp
next
  case (Cons inp rest)
  from Cons.prems have "label (btnStart (fst (loop_iteration cfg inp s)))
     = (if gRunning (fst (loop_iteration cfg inp s)) then ''PAUSE'' else ''PLAY'')"
    by (rule loop_iteration_keeps_label)
  then show ?case
    using Cons.IH by simp
qed

text \<open>
  C7. In every state the program reaches at the top of its loop (after any finite
  sequence of iterations, with any inputs, from the state on entry), the label of the
  first on-screen button is \<open>PAUSE\<close> when \<^verbatim>\<open>gRunning\<close> is true and \<open>PLAY\<close> when it is
  false. From such a state it holds again after the edge dispatch, in the state from
  which the frame is drawn, and after the whole iteration, for every input.
\<close>

theorem playPause_label_invariant:
  "(let s = run cfg ins (init_state t)
    in label (btnStart s) = (if gRunning s then ''PAUSE'' else ''PLAY'')
     \<and> label (btnStart (dispatch_edges inp s))
         = (if gRunning (dispatch_edges inp s) then ''PAUSE'' else ''PLAY'')
     \<and> label (btnStart (before_repaint cfg inp s))
         = (if gRunning (before_repaint cfg inp s) then ''PAUSE'' else ''PLAY'')
     \<and> label (btnStart (fst (loop_iteration cfg inp s)))
         = (if gRunning (fst (loop_iteration cfg inp s)) then ''PAUSE'' else ''PLAY''))"
proof -
  have init: "label (btnStart (init_state t))
      = (if gRunning (init_state t) then ''PAUSE'' else ''PLAY'')"
    by (simp add: init_state_def btnStart_init_def)
  have inv: "label (btnStart (run cfg ins (init_state t)))
      = (if gRunning (run cfg ins (init_state t)) then ''PAUSE'' else ''PLAY'')"
    using init by (rule run_keeps_label)
  show ?thesis
    unfolding Let_def
    using inv dispatch_edges_keeps_label [OF inv] before_repaint_keeps_label [OF inv]
      loop_iteration_keeps_label [OF inv]
    by blast
qed

text \<open>
  The state after a first press of Play/Pause runs and is labelled \<open>PAUSE\<close>; a second
  press stops it and the label is \<open>PLAY\<close> again.
\<close>

theorem playPause_label_invariant_witness:
  "gRunning (run clock_120MHz [press_playPause 0] power_on)
   \<and> label (btnStart (run clock_120MHz [press_playPause 0] power_on)) = ''PAUSE''
   \<and> \<not> gRunning (run clock_120MHz [press_playPause 0, press_playPause 0] power_on)
   \<and> label (btnStart (run clock_120MHz [press_playPause 0, press_playPause 0] power_on))
       = ''PLAY''"
proof -
  have a: "run clock_120MHz [press_playPause 0] power_on = just_started"
    by (simp add: just_started_def)
  have t: "\<not> gRunning (fst (loop_iteration clock_120MHz (press_playPause 0) just_started))"
    by (simp add: loop_iteration_frame before_repaint_def stopwatch_logic_frame
        dispatch_edges_gRunning poll_buttons_frame just_started_fields press_playPause_def
        no_edges_def)
  have b: "run clock_120MHz [press_playPause 0, press_playPause 0] power_on
      = fst (loop_iteration clock_120MHz (press_playPause 0) just_started)"
    by (simp add: just_started_def)
  show ?thesis
    using playPause_label_invariant [of clock_120MHz "[press_playPause 0]" "\<lambda>p. 0"
        "press_playPause 0"] t
    unfolding power_on_def [symmetric] a b Let_def
    by (simp add: just_started_fields)
qed

end
